theory Spec2Isabelle
  imports Main "HOL-Library.AList" "HOL-Library.Multiset"
begin

section \<open>Python values\<close>

text \<open>
  A Python \<open>str\<close> is a sequence of Unicode code points, so it is modelled as a list of
  naturals; \<open>py ''abc''\<close> is the literal \<open>"abc"\<close>. The double quote is code point 34, the
  backslash 92 and the newline 10.
\<close>

type_synonym pystr = "nat list"

definition py :: "string \<Rightarrow> pystr" where
  "py s = map of_char s"

text \<open>
  The values \<open>json.loads\<close> produces. A JSON object is a Python \<open>dict\<close>: insertion ordered,
  so an association list. Floating point numbers are not modelled.
\<close>

datatype json =
    JNull
  | JBool bool
  | JInt int
  | JStr pystr
  | JArr "json list"
  | JObj "(pystr \<times> json) list"

type_synonym dict = "(pystr \<times> json) list"

datatype py_error = AttributeError | TypeError | ValueError | JSONDecodeError

text \<open>What a call does: it returns a value, raises, or never returns.\<close>

datatype 'a result = Returns 'a | Raises py_error | Blocks

text \<open>\<open>d.get(k, dflt)\<close> and \<open>d.update(other)\<close> on a dict.\<close>

definition dict_get :: "dict \<Rightarrow> pystr \<Rightarrow> json \<Rightarrow> json" where
  "dict_get d k dflt = (case map_of d k of Some v \<Rightarrow> v | None \<Rightarrow> dflt)"

definition dict_update :: "dict \<Rightarrow> dict \<Rightarrow> dict" where
  "dict_update d other = foldl (\<lambda>acc (k, v). AList.update k v acc) d other"

text \<open>\<open>obj.get(k, dflt)\<close> on any value: only a dict has the method.\<close>

definition py_get :: "json \<Rightarrow> pystr \<Rightarrow> json \<Rightarrow> py_error + json" where
  "py_get obj k dflt = (case obj of JObj d \<Rightarrow> Inr (dict_get d k dflt) | _ \<Rightarrow> Inl AttributeError)"

text \<open>Iterating a value, as \<open>enumerate\<close> and \<open>len\<close> do: a dict yields its keys, a string its
  characters; \<open>None\<close>, booleans and numbers are not iterable.\<close>

definition py_iter :: "json \<Rightarrow> py_error + json list" where
  "py_iter v = (case v of
       JArr xs \<Rightarrow> Inr xs
     | JObj d \<Rightarrow> Inr (map (\<lambda>(k, _). JStr k) d)
     | JStr s \<Rightarrow> Inr (map (\<lambda>c. JStr [c]) s)
     | _ \<Rightarrow> Inl TypeError)"

text \<open>\<open>str.strip()\<close>: the code points for which \<open>str.isspace\<close> holds are removed from both ends.\<close>

definition is_space :: "nat \<Rightarrow> bool" where
  "is_space c \<longleftrightarrow>
     (9 \<le> c \<and> c \<le> 13) \<or> (28 \<le> c \<and> c \<le> 32) \<or> c = 133 \<or> c = 160 \<or> c = 5760 \<or>
     (8192 \<le> c \<and> c \<le> 8202) \<or> c = 8232 \<or> c = 8233 \<or> c = 8239 \<or> c = 8287 \<or> c = 12288"

definition strip :: "pystr \<Rightarrow> pystr" where
  "strip s = rev (dropWhile is_space (rev (dropWhile is_space s)))"

text \<open>\<open>str(n)\<close> of an integer, as an f-string prints it.\<close>

fun digits10 :: "nat \<Rightarrow> pystr" where
  "digits10 n = (if n < 10 then [48 + n] else digits10 (n div 10) @ [48 + n mod 10])"

declare digits10.simps [simp del]

definition str_int :: "int \<Rightarrow> pystr" where
  "str_int i = (if i < 0 then 45 # digits10 (nat (- i)) else digits10 (nat i))"

subsection \<open>\<open>json.dumps\<close>\<close>

text \<open>
  The serializer of the standard library, with its default separators. With
  \<open>ensure_ascii\<close> (the default) every code point outside \<open>0x20..0x7e\<close> is written as a
  \<open>\uXXXX\<close> escape, a code point above \<open>0xffff\<close> as a surrogate pair; without it only the
  quote, the backslash and the control characters below \<open>0x20\<close> are escaped.
\<close>

definition hex_digit :: "nat \<Rightarrow> nat" where
  "hex_digit d = (if d < 10 then 48 + d else 87 + d)"

definition hex4 :: "nat \<Rightarrow> pystr" where
  "hex4 n = [hex_digit (n div 4096 mod 16), hex_digit (n div 256 mod 16),
             hex_digit (n div 16 mod 16), hex_digit (n mod 16)]"

definition escape_char :: "bool \<Rightarrow> nat \<Rightarrow> pystr" where
  "escape_char ensure_ascii c =
     (if c = 34 then [92, 34]
      else if c = 92 then [92, 92]
      else if c = 10 then [92, 110]
      else if c = 13 then [92, 114]
      else if c = 9 then [92, 116]
      else if c = 8 then [92, 98]
      else if c = 12 then [92, 102]
      else if c < 32 then [92, 117] @ hex4 c
      else if ensure_ascii \<and> 126 < c then
        (if c < 65536 then [92, 117] @ hex4 c
         else [92, 117] @ hex4 (55296 + (c - 65536) div 1024 mod 1024)
            @ [92, 117] @ hex4 (56320 + (c - 65536) mod 1024))
      else [c])"

definition quote :: "bool \<Rightarrow> pystr \<Rightarrow> pystr" where
  "quote ensure_ascii s = 34 # concat (map (escape_char ensure_ascii) s) @ [34]"

fun intercalate :: "'a list \<Rightarrow> 'a list list \<Rightarrow> 'a list" where
  "intercalate sep [] = []"
| "intercalate sep [x] = x"
| "intercalate sep (x # y # ys) = x @ sep @ intercalate sep (y # ys)"

fun json_dumps :: "bool \<Rightarrow> json \<Rightarrow> pystr" where
  "json_dumps ea JNull = py ''null''"
| "json_dumps ea (JBool b) = (if b then py ''true'' else py ''false'')"
| "json_dumps ea (JInt i) = str_int i"
| "json_dumps ea (JStr s) = quote ea s"
| "json_dumps ea (JArr xs) = 91 # intercalate (py '', '') (map (json_dumps ea) xs) @ [93]"
| "json_dumps ea (JObj kvs) =
     123 # intercalate (py '', '')
             (map (\<lambda>(k, v). quote ea k @ py '': '' @ json_dumps ea v) kvs) @ [125]"

section \<open>\<open>scripts/unit_test.py\<close>\<close>

subsection \<open>The isolated context\<close>

text \<open>
  What happens inside the \<open>try\<close> block of \<open>_worker\<close> is decided by the Python interpreter
  and the untrusted code, so it is a parameter of the model:
  \<^item> \<open>Ran ok out err\<close>: \<open>exec\<close>, the test loader and the runner returned;
    \<open>ok\<close> is \<open>result.wasSuccessful()\<close>, \<open>out\<close> and \<open>err\<close> are the captured
    \<open>sys.stdout\<close> and \<open>sys.stderr\<close>;
  \<^item> \<open>Fault tb\<close>: an \<open>Exception\<close> reached the \<open>except\<close> clause and
    \<open>traceback.format_exc()\<close> is \<open>tb\<close>;
  \<^item> \<open>Unfinished\<close>: the block neither returned nor raised an \<open>Exception\<close>: the code
    loops, the process was killed, or a \<open>BaseException\<close> such as \<open>SystemExit\<close> left it.
  A child process also has a lifetime in milliseconds from its start (\<open>None\<close>: it never
  exits by itself) and may ignore \<open>SIGTERM\<close>.
\<close>

datatype py_run = Ran bool pystr pystr | Fault pystr | Unfinished

record child =
  run :: py_run
  lifetime :: "nat option"
  traps_sigterm :: bool

text \<open>The message \<open>_worker\<close> sends on its end of the pipe, if any.\<close>

definition worker :: "py_run \<Rightarrow> dict option" where
  "worker r = (case r of
       Ran ok out err \<Rightarrow>
         (if ok then Some [(py ''category'', JStr (py ''success'')), (py ''stdout'', JStr out)]
          else Some [(py ''category'', JStr (py ''test_failure'')),
                     (py ''stdout'', JStr out),
                     (py ''error'', JStr (if err = [] then py ''Test failed'' else err))])
     | Fault tb \<Rightarrow>
         Some [(py ''category'', JStr (py ''execution_error'')), (py ''error'', JStr tb)]
     | Unfinished \<Rightarrow> None)"

subsection \<open>The process handle\<close>

text \<open>
  \<open>multiprocessing.Process\<close> as the supervisor sees it. A process that has exited and
  has not been waited for is a zombie (\<open>Exited\<close>); \<open>join\<close> and \<open>is_alive\<close> wait for it
  (\<open>Reaped\<close>). \<open>terminate\<close> sends \<open>SIGTERM\<close>. \<open>join()\<close> without a timeout returns only
  once the process has exited.
\<close>

datatype proc = Unstarted | Alive | Exited | Reaped

datatype call = Start | JoinFor int | IsAlive | Terminate | Join | Poll | Recv

definition exits_within :: "child \<Rightarrow> int \<Rightarrow> bool" where
  "exits_within c timeout =
     (case lifetime c of None \<Rightarrow> False | Some ms \<Rightarrow> int ms \<le> 1000 * timeout)"

definition p_join_for :: "child \<Rightarrow> int \<Rightarrow> proc \<Rightarrow> proc" where
  "p_join_for c timeout p = (if p = Alive \<and> exits_within c timeout then Reaped else p)"

definition is_alive :: "proc \<Rightarrow> bool" where
  "is_alive p \<longleftrightarrow> p = Alive"

definition p_terminate :: "child \<Rightarrow> proc \<Rightarrow> proc" where
  "p_terminate c p = (if p = Alive \<and> \<not> traps_sigterm c then Exited else p)"

definition p_join :: "child \<Rightarrow> proc \<Rightarrow> proc option" where
  "p_join c p = (case p of
       Alive \<Rightarrow> (case lifetime c of None \<Rightarrow> None | Some _ \<Rightarrow> Some Reaped)
     | Exited \<Rightarrow> Some Reaped
     | _ \<Rightarrow> Some p)"

subsection \<open>\<open>run_unittest\<close>\<close>

text \<open>
  What \<open>run_unittest\<close> returns, with what it did on the way: the result dict, the
  source text handed to a child process (\<open>None\<close>: no process was created), the calls made
  on the process and the pipe, and the state of the process at the return.
\<close>

record verdict =
  outcome :: dict
  executed :: "pystr option"
  calls :: "call list"
  process :: proc

text \<open>The host: the identifier \<open>uuid.uuid4()\<close> draws and the interpreter that runs a child.\<close>

record host =
  uuid4 :: pystr
  interpreter :: "pystr \<Rightarrow> child"

text \<open>Lines 86 to 93: the source text of one test method, named \<open>test_case_{i}\<close>.\<close>

definition test_name :: "nat \<Rightarrow> pystr" where
  "test_name i = py ''test_case_'' @ digits10 i"

definition test_method :: "nat \<Rightarrow> pystr \<Rightarrow> pystr \<Rightarrow> pystr" where
  \<open>test_method i input_str expected_output =
     py ''\<newline>            def '' @ test_name i @ py ''(self):\<newline>''
     @ py ''                input_str = '' @ input_str @ py ''\<newline>''
     @ py ''                expected = '' @ expected_output @ py ''\<newline>''
     @ py ''                input_lines = input_str.strip().split("'' @ [92] @ py ''n")\<newline>''
     @ py ''                result = solve(input_lines)\<newline>''
     @ py ''                self.assertEqual(str(result).strip(), expected.strip(), ''
     @ py ''f"Output mismatch: {result} != {expected}")\<newline>''
     @ py ''        ''\<close>

text \<open>Lines 81 to 94: the loop over \<open>enumerate(public_tests)\<close>, from index \<open>i\<close>.\<close>

fun test_methods :: "nat \<Rightarrow> json list \<Rightarrow> py_error + pystr list" where
  "test_methods i [] = Inr []"
| "test_methods i (c # cs) =
     (case py_get c (py ''input'') (JStr []) of
        Inl e \<Rightarrow> Inl e
      | Inr inp \<Rightarrow>
          (case py_get c (py ''output'') (JStr []) of
             Inl e \<Rightarrow> Inl e
           | Inr out \<Rightarrow>
               (case test_methods (Suc i) cs of
                  Inl e \<Rightarrow> Inl e
                | Inr ms \<Rightarrow>
                    Inr (test_method i (json_dumps True inp) (json_dumps True out) # ms))))"

text \<open>Lines 96 to 100.\<close>

definition test_code :: "pystr list \<Rightarrow> pystr" where
  "test_code methods =
     py ''\<newline>import unittest\<newline>\<newline>class TestDataclass(unittest.TestCase):\<newline>''
     @ concat methods @ py ''\<newline>''"

text \<open>Line 102.\<close>

definition full_code :: "pystr \<Rightarrow> pystr \<Rightarrow> pystr" where
  "full_code generated_solution tc = generated_solution @ py ''\<newline>\<newline>'' @ tc"

text \<open>Lines 66 to 78: the dict returned when no code was provided.\<close>

definition empty_code_result :: "host \<Rightarrow> dict \<Rightarrow> dict" where
  "empty_code_result h d =
     [(py ''problem_id'', dict_get d (py ''problem_id'') JNull),
      (py ''solution_id'', dict_get d (py ''solution_id'') (JStr (uuid4 h))),
      (py ''generated_solution'', dict_get d (py ''generated_solution'') (JStr [])),
      (py ''public_tests'', dict_get d (py ''public_tests'') (JArr [])),
      (py ''private_tests'', dict_get d (py ''private_tests'') (JArr [])),
      (py ''solution_code'', dict_get d (py ''solution_code'') JNull),
      (py ''dataclass_code'', dict_get d (py ''dataclass_code'') JNull),
      (py ''complexity'', dict_get d (py ''complexity'') JNull),
      (py ''category'', JStr (py ''empty_code_extracted'')),
      (py ''error'', JStr (py ''No code provided in 'generated_solution'.'')),
      (py ''raw_llm_output'', dict_get d (py ''raw_llm_output'') (JStr []))]"

text \<open>Lines 109 to 120: the dict every other return starts from.\<close>

definition base_result :: "host \<Rightarrow> dict \<Rightarrow> nat \<Rightarrow> dict" where
  "base_result h d num_tests =
     [(py ''problem_id'', dict_get d (py ''problem_id'') JNull),
      (py ''solution_id'', dict_get d (py ''solution_id'') (JStr (uuid4 h))),
      (py ''generated_solution'', dict_get d (py ''generated_solution'') (JStr [])),
      (py ''num_tests'', JInt (int num_tests)),
      (py ''public_tests'', dict_get d (py ''public_tests'') (JArr [])),
      (py ''private_tests'', dict_get d (py ''private_tests'') (JArr [])),
      (py ''solution_code'', dict_get d (py ''solution_code'') JNull),
      (py ''dataclass_code'', dict_get d (py ''dataclass_code'') JNull),
      (py ''complexity'', dict_get d (py ''complexity'') JNull)]"

text \<open>Lines 104 to 107 and 122 to 137: start the child, wait, classify.\<close>

definition supervise :: "child \<Rightarrow> pystr \<Rightarrow> int \<Rightarrow> dict \<Rightarrow> verdict result" where
  "supervise c code timeout result =
     (let p = p_join_for c timeout Alive in
      if is_alive p then
        (case p_join c (p_terminate c p) of
           None \<Rightarrow> Blocks
         | Some p' \<Rightarrow>
             Returns \<lparr>outcome = dict_update result
                        [(py ''category'', JStr (py ''timeout'')),
                         (py ''error'', JStr (py ''Execution timed out after '' @ str_int timeout
                                               @ py '' seconds''))],
                      executed = Some code,
                      calls = [Start, JoinFor timeout, IsAlive, Terminate, Join],
                      process = p'\<rparr>)
      else
        (case worker (run c) of
           Some msg \<Rightarrow>
             Returns \<lparr>outcome = dict_update result msg,
                      executed = Some code,
                      calls = [Start, JoinFor timeout, IsAlive, Poll, Recv],
                      process = p\<rparr>
         | None \<Rightarrow>
             Returns \<lparr>outcome = dict_update result
                        [(py ''category'', JStr (py ''no_response'')),
                         (py ''error'', JStr (py ''No response received from subprocess''))],
                      executed = Some code,
                      calls = [Start, JoinFor timeout, IsAlive, Poll],
                      process = p\<rparr>))"

definition run_unittest :: "host \<Rightarrow> json \<Rightarrow> int \<Rightarrow> verdict result" where
  "run_unittest h problem timeout =
     (case problem of
        JObj d \<Rightarrow>
          (case dict_get d (py ''generated_solution'') (JStr []) of
             JStr generated_solution \<Rightarrow>
               if strip generated_solution = [] then
                 Returns \<lparr>outcome = empty_code_result h d, executed = None,
                          calls = [], process = Unstarted\<rparr>
               else
                 (case py_iter (dict_get d (py ''public_tests'') (JArr [])) of
                    Inl e \<Rightarrow> Raises e
                  | Inr cases \<Rightarrow>
                      (case test_methods 0 cases of
                         Inl e \<Rightarrow> Raises e
                       | Inr methods \<Rightarrow>
                           (let code = full_code generated_solution (test_code methods) in
                            supervise (interpreter h code) code timeout
                              (base_result h d (length cases)))))
           | _ \<Rightarrow> Raises AttributeError)
      | _ \<Rightarrow> Raises AttributeError)"

text \<open>A field of the returned dict.\<close>

abbreviation field :: "verdict \<Rightarrow> string \<Rightarrow> json option" where
  "field v k \<equiv> map_of (outcome v) (py k)"

subsection \<open>Example tasks and hosts\<close>



definition blank_task :: json where
  "blank_task = JObj
     [(py ''problem_id'', JStr (py ''p3'')),
      (py ''generated_solution'', JStr (py ''  \<newline>''))]"

definition passing_host :: host where
  "passing_host = \<lparr>uuid4 = py ''0f0e'',
     interpreter = (\<lambda>code. \<lparr>run = Ran True (py ''OK'') [], lifetime = Some 40,
                                traps_sigterm = False\<rparr>)\<rparr>"



subsection \<open>The synthesized source as text\<close>

text \<open>A text of printable ASCII characters only: it has no line break in it.\<close>

definition printable :: "pystr \<Rightarrow> bool" where
  "printable s \<longleftrightarrow> list_all (\<lambda>c. 32 \<le> c \<and> c \<le> 126) s"


text \<open>A text that ends in another.\<close>

definition ends_with :: "pystr \<Rightarrow> pystr \<Rightarrow> bool" where
  "ends_with s suffix \<longleftrightarrow>
     length suffix \<le> length s \<and> drop (length s - length suffix) s = suffix"

text \<open>
  A fact of the Python language, as a condition on the interpreter of a host: a source
  text that ends in the header of the test class with no statement after it does not
  compile (\<open>IndentationError: expected an indented block after class definition\<close>), so
  \<open>exec\<close> raises and the handler of \<open>_worker\<close> is reached. The header starts a line of
  its own whatever the generated solution is, \<open>full_code\<close> putting line breaks before it.
\<close>

definition rejects_empty_class_body :: "(pystr \<Rightarrow> child) \<Rightarrow> bool" where
  "rejects_empty_class_body python \<longleftrightarrow>
     (\<forall>g. \<exists>tb. run (python (full_code g (test_code []))) = Fault tb)"

text \<open>A task with code and no public test, and a host whose interpreter rejects a source
  that ends in the bare class header and passes every other one.\<close>

definition no_tests_task :: json where
  "no_tests_task = JObj
     [(py ''problem_id'', JStr (py ''p4'')),
      (py ''solution_id'', JStr (py ''s4'')),
      (py ''generated_solution'', JStr (py ''def solve(lines): return lines[0]'')),
      (py ''public_tests'', JArr [])]"

definition strict_host :: host where
  "strict_host = \<lparr>uuid4 = py ''0f0e'',
     interpreter = (\<lambda>code.
       if ends_with code (test_code [])
       then \<lparr>run = Fault (py ''IndentationError: expected an indented block''),
             lifetime = Some 30, traps_sigterm = False\<rparr>
       else \<lparr>run = Ran True (py ''OK'') [], lifetime = Some 40, traps_sigterm = False\<rparr>)\<rparr>"

section \<open>Reading newline-delimited records\<close>

text \<open>
  \<open>json.loads\<close> is the parser of the standard library, a parameter of the model: it
  returns a value, or the message of its \<open>JSONDecodeError\<close>. A file is read as the list
  of its lines, as iterating the file object yields them.
\<close>

type_synonym parser = "pystr \<Rightarrow> pystr + json"

subsection \<open>\<open>load_jsonl\<close> of \<open>scripts/unit_test.py\<close>\<close>




subsection \<open>\<open>load_dataset\<close> of \<open>scripts/codegenerate_parallel-Codecontest-2.py\<close>\<close>


text \<open>
  A value as a member of a \<open>set\<close> or a component of a tuple in one: lists and dicts are
  not hashable (\<open>TypeError\<close>), and \<open>True\<close> and \<open>False\<close> are equal to \<open>1\<close> and \<open>0\<close>.
\<close>

definition py_key :: "json \<Rightarrow> json option" where
  "py_key v = (case v of
       JNull \<Rightarrow> Some JNull
     | JBool b \<Rightarrow> Some (JInt (if b then 1 else 0))
     | JInt i \<Rightarrow> Some (JInt i)
     | JStr s \<Rightarrow> Some (JStr s)
     | JArr xs \<Rightarrow> None
     | JObj d \<Rightarrow> None)"



section \<open>\<open>scripts/codegenerate_parallel-Codecontest-2.py\<close>: one model and temperature\<close>

subsection \<open>The output file and the resume ledger\<close>

text \<open>
  The output file is its text; an absent file and an empty one read the same. Iterating
  it yields its lines, each with its line break, the last one without if the text does
  not end in one.
\<close>

fun lines_of :: "pystr \<Rightarrow> pystr list" where
  "lines_of [] = []"
| "lines_of (c # cs) =
     (if c = 10 then [10] # lines_of cs
      else case lines_of cs of [] \<Rightarrow> [[c]] | l # ls \<Rightarrow> (c # l) # ls)"

text \<open>Lines 173 and 174: the identity key of a parsed line; \<open>None\<close> when one of the
  steps raises (the line is then skipped).\<close>

definition ledger_key :: "json \<Rightarrow> (json \<times> json) option" where
  "ledger_key data = (case data of
       JObj d \<Rightarrow>
         (case map_of d (py ''problem_id'') of
            None \<Rightarrow> None
          | Some pid \<Rightarrow>
              (case (py_key pid, py_key (dict_get d (py ''completion_index'') (JInt 0))) of
                 (Some a, Some b) \<Rightarrow> Some (a, b)
               | _ \<Rightarrow> None))
     | _ \<Rightarrow> None)"

text \<open>Lines 167 to 177: \<open>completed_problem_keys\<close>.\<close>

fun ledger_loop :: "parser \<Rightarrow> (json \<times> json) set \<Rightarrow> pystr list \<Rightarrow> (json \<times> json) set" where
  "ledger_loop loads keys [] = keys"
| "ledger_loop loads keys (line # rest) =
     (case loads line of
        Inl e \<Rightarrow> ledger_loop loads keys rest
      | Inr data \<Rightarrow>
          (case ledger_key data of
             None \<Rightarrow> ledger_loop loads keys rest
           | Some key \<Rightarrow> ledger_loop loads (insert key keys) rest))"


subsection \<open>The work list\<close>

text \<open>The key \<open>(problem.get("problem_id"), i)\<close> of a job, as a member of the ledger.\<close>

definition job_key :: "json \<Rightarrow> int \<Rightarrow> py_error + (json \<times> json)" where
  "job_key problem i =
     (case py_get problem (py ''problem_id'') JNull of
        Inl e \<Rightarrow> Inl e
      | Inr pid \<Rightarrow> (case py_key pid of None \<Rightarrow> Inl TypeError | Some k \<Rightarrow> Inr (k, JInt i)))"



subsection \<open>One completion\<close>

text \<open>
  What the generation driver takes from outside: the chat call of the model-serving
  client for a user message (the model, the system message and the temperature being
  fixed), which returns the content or fails with the text of an exception; the two
  regular-expression helpers \<open>strip_examples\<close> and \<open>extract_code_block\<close>, as functions on
  text; the identifier \<open>uuid.uuid4()\<close> draws for a job; the text \<open>str(e)\<close> of an exception;
  and the flag \<open>withoutexemples\<close>.
\<close>

record generator =
  chat :: "pystr \<Rightarrow> pystr + pystr"
  strip_examples :: "pystr \<Rightarrow> pystr"
  extract_code_block :: "pystr \<Rightarrow> pystr"
  new_uuid :: "json \<Rightarrow> int \<Rightarrow> pystr"
  error_text :: "py_error \<Rightarrow> pystr"
  withoutexemples :: bool

text \<open>Lines 67 to 96: both branches catch every exception of the call, print it and
  return the empty string.\<close>

definition create_completion :: "generator \<Rightarrow> pystr \<Rightarrow> pystr" where
  "create_completion g user_message =
     (case chat g user_message of Inl e \<Rightarrow> [] | Inr content \<Rightarrow> strip content)"

text \<open>\<open>strip_examples(problem.get('description', ''))\<close>: the regular expression search
  raises \<open>TypeError\<close> on a value that is not text.\<close>

definition stripped_description :: "generator \<Rightarrow> dict \<Rightarrow> py_error + pystr" where
  "stripped_description g d =
     (case dict_get d (py ''description'') (JStr []) of
        JStr s \<Rightarrow> Inr (strip_examples g s)
      | _ \<Rightarrow> Inl TypeError)"

text \<open>\<open>problem.get("tests", {}).get(name, [])\<close>.\<close>

definition tests_of :: "dict \<Rightarrow> pystr \<Rightarrow> py_error + json" where
  "tests_of d name = py_get (dict_get d (py ''tests'') (JObj [])) name (JArr [])"

text \<open>Lines 208 to 210: the user message.\<close>

definition user_message :: "pystr \<Rightarrow> pystr" where
  "user_message statement =
     py ''Here is the problem statement:\<newline>\<newline>'' @ strip statement
     @ py ''\<newline>\<newline>Write the correct implementation of `solve` based on this description.''"

text \<open>Lines 191 to 230: the body of the \<open>try\<close>.\<close>

definition try_completion :: "generator \<Rightarrow> dict \<Rightarrow> int \<Rightarrow> json \<Rightarrow> py_error + dict" where
  "try_completion g d i problem_description =
     (case stripped_description g d of
        Inl e \<Rightarrow> Inl e
      | Inr statement \<Rightarrow>
          (let raw_llm_output = create_completion g (user_message statement);
               generated_solution_code = extract_code_block g raw_llm_output in
           case tests_of d (py ''public_tests'') of
             Inl e \<Rightarrow> Inl e
           | Inr public_tests \<Rightarrow>
               (case tests_of d (py ''private_tests'') of
                  Inl e \<Rightarrow> Inl e
                | Inr private_tests \<Rightarrow>
                    Inr [(py ''problem_id'', dict_get d (py ''problem_id'') JNull),
                         (py ''solution_id'', JStr (new_uuid g (JObj d) i)),
                         (py ''completion_index'', JInt i),
                         (py ''description'', problem_description),
                         (py ''generated_solution'', JStr generated_solution_code),
                         (py ''difficulty'', dict_get d (py ''difficulty'') JNull),
                         (py ''solutions'', dict_get d (py ''solutions'') JNull),
                         (py ''generated_tests'', dict_get d (py ''generated_tests'') JNull),
                         (py ''public_tests'', public_tests),
                         (py ''private_tests'', private_tests),
                         (py ''raw_llm_output'', JStr raw_llm_output)])))"

text \<open>
  Lines 231 to 246: the handler. An exception reaches it from the user message (then no
  completion was requested yet) or from the tests (then the handler raises it again,
  reading the tests the same way); so the two \<open>locals().get\<close> of a record it builds are
  the empty string.
\<close>

definition except_record :: "generator \<Rightarrow> dict \<Rightarrow> int \<Rightarrow> json \<Rightarrow> py_error \<Rightarrow> py_error + dict" where
  "except_record g d i problem_description e =
     (case tests_of d (py ''public_tests'') of
        Inl e' \<Rightarrow> Inl e'
      | Inr public_tests \<Rightarrow>
          (case tests_of d (py ''private_tests'') of
             Inl e' \<Rightarrow> Inl e'
           | Inr private_tests \<Rightarrow>
               Inr [(py ''problem_id'', dict_get d (py ''problem_id'') JNull),
                    (py ''solution_id'', JStr (new_uuid g (JObj d) i)),
                    (py ''completion_index'', JInt i),
                    (py ''description'', problem_description),
                    (py ''error_category'', JStr (py ''api_call_failure'')),
                    (py ''error_message'', JStr (error_text g e)),
                    (py ''generated_solution'', JStr []),
                    (py ''raw_llm_output'', JStr []),
                    (py ''difficulty'', dict_get d (py ''difficulty'') JNull),
                    (py ''solutions'', dict_get d (py ''solutions'') JNull),
                    (py ''generated_tests'', dict_get d (py ''generated_tests'') JNull),
                    (py ''public_tests'', public_tests),
                    (py ''private_tests'', private_tests)]))"

text \<open>
  Lines 180 to 250: \<open>process_one_completion\<close>. It returns the record it appends to the
  output file, or nothing when the key is in the ledger, or it raises.
\<close>

definition process_one_completion ::
  "generator \<Rightarrow> (json \<times> json) set \<Rightarrow> json \<Rightarrow> int \<Rightarrow> py_error + dict option" where
  "process_one_completion g keys problem i =
     (case problem of
        JObj d \<Rightarrow>
          (case (if withoutexemples g
                 then (case stripped_description g d of Inl e \<Rightarrow> Inl e | Inr s \<Rightarrow> Inr (JStr s))
                 else Inr (dict_get d (py ''description'') (JStr []))) of
             Inl e \<Rightarrow> Inl e
           | Inr problem_description \<Rightarrow>
               (case job_key problem i of
                  Inl e \<Rightarrow> Inl e
                | Inr key \<Rightarrow>
                    if key \<in> keys then Inr None
                    else (case try_completion g d i problem_description of
                            Inr info \<Rightarrow> Inr (Some info)
                          | Inl e \<Rightarrow>
                              (case except_record g d i problem_description e of
                                 Inl e' \<Rightarrow> Inl e'
                               | Inr info \<Rightarrow> Inr (Some info)))))
      | _ \<Rightarrow> Inl AttributeError)"





subsection \<open>What a loader keeps of a line\<close>






subsection \<open>Record boundaries\<close>


text \<open>A text with no control character, so with no line break.\<close>

definition no_control :: "pystr \<Rightarrow> bool" where
  "no_control s \<longleftrightarrow> list_all (\<lambda>c. 32 \<le> c) s"



text \<open>The key of a loaded problem, and the line a job writes when it is run.\<close>

definition pid_key :: "json \<Rightarrow> json option" where
  "pid_key problem = (case problem of
       JObj d \<Rightarrow> py_key (dict_get d (py ''problem_id'') JNull)
     | _ \<Rightarrow> None)"

definition job_keys :: "(json \<times> int) list \<Rightarrow> (json \<times> json) set" where
  "job_keys js = {key. \<exists>(problem, i) \<in> set js. job_key problem i = Inr key}"


subsection \<open>Example generators\<close>

text \<open>
  A problem with nothing but its identifier; a generator whose model answers \<open>x\<close> to
  every message and one whose every call to the model fails; the record the first one
  writes for completion \<open>i\<close> of the problem; and a parser that reads the line of the
  problem and the lines of the first two records, and refuses every other text.
\<close>

definition demo_problem :: json where
  "demo_problem = JObj [(py ''problem_id'', JStr (py ''p1''))]"

definition demo_generator :: generator where
  "demo_generator =
     \<lparr>chat = (\<lambda>message. Inr (py ''x'')),
      strip_examples = (\<lambda>s. s),
      extract_code_block = (\<lambda>s. s),
      new_uuid = (\<lambda>problem i. py ''u''),
      error_text = (\<lambda>e. py ''error''),
      withoutexemples = False\<rparr>"

definition offline_generator :: generator where
  "offline_generator = demo_generator\<lparr>chat := (\<lambda>message. Inl (py ''Connection refused''))\<rparr>"



section \<open>Worker threads appending to the output file\<close>

text \<open>
  Lines 248 to 250, run by several threads at once. A thread that has its record is
  \<open>Idle\<close> until it has entered \<open>with lock\<close>; then it is \<open>Holding\<close> the text that has not
  reached the file yet, which gets there in one or more pieces (the write is buffered and
  flushed when the file is closed, inside the lock); when nothing is left it releases the
  lock and is \<open>Finished\<close>. The lock is free or held by one thread, and only a free lock can
  be acquired. A step of the system is a step of one thread, so a run is any interleaving.
\<close>

datatype phase = Idle | Holding pystr | Finished

record sink =
  content :: pystr
  lock :: "nat option"
  phases :: "phase list"




section \<open>Basic facts\<close>

lemma py_eq_iff [simp]: "py s = py t \<longleftrightarrow> s = t"
  by (simp add: py_def inj_map_eq_map inj_on_def)

lemma py_Nil [simp]: "py [] = []"
  by (simp add: py_def)

lemma py_eq_Nil_iff [simp]: "py s = [] \<longleftrightarrow> s = []"
  by (simp add: py_def)


subsection \<open>Strings and dicts\<close>

lemma strip_empty_iff: "strip s = [] \<longleftrightarrow> (\<forall>c \<in> set s. is_space c)"
proof
  assume "strip s = []"
  then have "dropWhile is_space (rev (dropWhile is_space s)) = []"
    by (simp add: strip_def)
  then have a: "\<forall>c \<in> set (dropWhile is_space s). is_space c"
    by (simp add: dropWhile_eq_Nil_conv)
  show "\<forall>c \<in> set s. is_space c"
  proof (rule ccontr)
    assume "\<not> (\<forall>c \<in> set s. is_space c)"
    then have "dropWhile is_space s \<noteq> []"
      by (simp add: dropWhile_eq_Nil_conv)
    then have "\<not> is_space (hd (dropWhile is_space s))"
      by (rule hd_dropWhile)
    moreover have "hd (dropWhile is_space s) \<in> set (dropWhile is_space s)"
      using \<open>dropWhile is_space s \<noteq> []\<close> by simp
    ultimately show False using a by blast
  qed
next
  assume "\<forall>c \<in> set s. is_space c"
  then show "strip s = []"
    by (auto simp: strip_def dest: set_dropWhileD)
qed

lemma map_of_dict_update:
  "map_of (dict_update d other) k =
     (case map_of (rev other) k of Some v \<Rightarrow> Some v | None \<Rightarrow> map_of d k)"
  unfolding dict_update_def
proof (induction other arbitrary: d)
  case Nil
  then show ?case by simp
next
  case (Cons a other)
  obtain k' v' where a: "a = (k', v')" by (cases a)
  show ?case
    by (simp add: a Cons.IH update_conv' map_add_def split: option.splits)
qed





subsection \<open>The supervisor\<close>

lemma is_alive_after_join_for: "is_alive (p_join_for c t Alive) \<longleftrightarrow> \<not> exits_within c t"
  by (simp add: is_alive_def p_join_for_def)

lemma supervise_timeout:
  assumes "\<not> exits_within c t"
  shows "supervise c code t r =
     (if traps_sigterm c \<and> lifetime c = None then Blocks
      else Returns \<lparr>outcome = dict_update r
                        [(py ''category'', JStr (py ''timeout'')),
                         (py ''error'', JStr (py ''Execution timed out after '' @ str_int t
                                               @ py '' seconds''))],
                    executed = Some code,
                    calls = [Start, JoinFor t, IsAlive, Terminate, Join],
                    process = Reaped\<rparr>)"
  using assms
  by (auto simp: supervise_def Let_def is_alive_def p_join_for_def p_terminate_def p_join_def
      split: option.splits)

lemma supervise_in_time:
  assumes "exits_within c t"
  shows "supervise c code t r =
     Returns \<lparr>outcome = dict_update r
                 (case worker (run c) of
                    Some msg \<Rightarrow> msg
                  | None \<Rightarrow> [(py ''category'', JStr (py ''no_response'')),
                             (py ''error'', JStr (py ''No response received from subprocess''))]),
              executed = Some code,
              calls = (case worker (run c) of
                         Some msg \<Rightarrow> [Start, JoinFor t, IsAlive, Poll, Recv]
                       | None \<Rightarrow> [Start, JoinFor t, IsAlive, Poll]),
              process = Reaped\<rparr>"
  using assms
  by (auto simp: supervise_def Let_def is_alive_def p_join_for_def split: option.splits)


lemma run_unittest_spawn:
  assumes "dict_get d (py ''generated_solution'') (JStr []) = JStr g" and "strip g \<noteq> []"
    and "py_iter (dict_get d (py ''public_tests'') (JArr [])) = Inr cases"
    and "test_methods 0 cases = Inr ms"
  shows "run_unittest h (JObj d) t =
           supervise (interpreter h (full_code g (test_code ms))) (full_code g (test_code ms)) t
             (base_result h d (length cases))"
  using assms by (simp add: run_unittest_def Let_def)

lemma run_unittest_blank:
  assumes "dict_get d (py ''generated_solution'') (JStr []) = JStr g" and "strip g = []"
  shows "run_unittest h (JObj d) t =
           Returns \<lparr>outcome = empty_code_result h d, executed = None, calls = [],
                    process = Unstarted\<rparr>"
  using assms by (simp add: run_unittest_def)




section \<open>The outcome classifier\<close>




section \<open>Blank code\<close>

text \<open>
  Claim C2. When the generated solution is text that is empty or consists of whitespace only
  (also when the field is absent, its default being the empty string), \<open>run_unittest\<close>
  returns a result of category \<open>empty_code_extracted\<close>, and it has created no child
  process: no source text was handed to one, no call was made on a process handle, and no
  process was started.
\<close>

theorem C2_blank_code:
  assumes "dict_get d (py ''generated_solution'') (JStr []) = JStr g"
    and "\<forall>c \<in> set g. is_space c"
  shows "\<exists>v. run_unittest h (JObj d) timeout = Returns v \<and>
             field v ''category'' = Some (JStr (py ''empty_code_extracted'')) \<and>
             executed v = None \<and> Start \<notin> set (calls v) \<and> process v = Unstarted"
proof -
  from assms(2) have "strip g = []"
    by (simp add: strip_empty_iff)
  with assms(1) show ?thesis
    by (simp add: run_unittest_blank empty_code_result_def)
qed

theorem C2_blank_code_witness:
  "strip (py ''  \<newline>'') = [] \<and>
   (\<exists>v. run_unittest passing_host blank_task 10 = Returns v \<and>
        field v ''category'' = Some (JStr (py ''empty_code_extracted'')) \<and>
        executed v = None \<and> Start \<notin> set (calls v) \<and> process v = Unstarted)"
proof -
  have g: "dict_get [(py ''problem_id'', JStr (py ''p3'')),
                     (py ''generated_solution'', JStr (py ''  \<newline>''))]
             (py ''generated_solution'') (JStr []) = JStr (py ''  \<newline>'')"
    by (simp add: dict_get_def)
  have b: "\<forall>c \<in> set (py ''  \<newline>''). is_space c"
    by (simp add: py_def is_space_def)
  from C2_blank_code [OF g b, of passing_host 10] b show ?thesis
    unfolding blank_task_def strip_empty_iff by blast
qed


section \<open>Timeouts\<close>

lemma supervise_timeout_result:
  assumes "\<not> exits_within c t"
  shows "case supervise c code t r of
           Returns v \<Rightarrow>
             outcome v = dict_update r
                [(py ''category'', JStr (py ''timeout'')),
                 (py ''error'', JStr (py ''Execution timed out after '' @ str_int t
                                       @ py '' seconds''))]
             \<and> executed v = Some code
             \<and> calls v = [Start, JoinFor t, IsAlive, Terminate, Join]
             \<and> process v = Reaped
         | Raises e \<Rightarrow> False
         | Blocks \<Rightarrow> traps_sigterm c \<and> lifetime c = None"
  by (simp add: supervise_timeout [OF assms])








section \<open>The synthesized tests\<close>

lemma printable_Nil [simp]: "printable []"
  by (simp add: printable_def)

lemma printable_append [simp]: "printable (s @ t) \<longleftrightarrow> printable s \<and> printable t"
  by (simp add: printable_def)

lemma printable_Cons [simp]: "printable (c # s) \<longleftrightarrow> 32 \<le> c \<and> c \<le> 126 \<and> printable s"
  by (simp add: printable_def)









lemma printable_py_lits [simp]:
  "printable (py ''null'')" "printable (py ''true'')" "printable (py ''false'')"
  "printable (py '', '')" "printable (py '': '')"
  by (simp_all add: py_def)










section \<open>No public tests\<close>

lemma ends_with_full_code: "ends_with (full_code g tc) tc"
  by (simp add: ends_with_def full_code_def)

lemma strict_host_rejects: "rejects_empty_class_body (interpreter strict_host)"
  by (simp add: rejects_empty_class_body_def strict_host_def ends_with_full_code)

text \<open>
  Claim C10 says that a task with code and no public test ends as \<open>success\<close>. The code
  does not do that: with no test method the class header is the last line of the source,
  which Python refuses to compile, so the worker reports \<open>execution_error\<close> (or the
  deadline passes first). Under an interpreter that rejects the bare class header, the
  category is never \<open>success\<close>.
\<close>

theorem C10_no_tests_is_not_success:
  assumes "rejects_empty_class_body (interpreter h)"
    and "dict_get d (py ''generated_solution'') (JStr []) = JStr g" and "strip g \<noteq> []"
    and "dict_get d (py ''public_tests'') (JArr []) = JArr []"
  shows "case run_unittest h (JObj d) timeout of
           Returns v \<Rightarrow>
             executed v = Some (full_code g (test_code [])) \<and>
             field v ''category'' \<noteq> Some (JStr (py ''success'')) \<and>
             (if exits_within (interpreter h (full_code g (test_code []))) timeout
              then field v ''category'' = Some (JStr (py ''execution_error''))
              else field v ''category'' = Some (JStr (py ''timeout'')))
         | Raises e \<Rightarrow> False
         | Blocks \<Rightarrow> traps_sigterm (interpreter h (full_code g (test_code []))) \<and>
                      lifetime (interpreter h (full_code g (test_code []))) = None"
proof -
  let ?code = "full_code g (test_code [])"
  let ?c = "interpreter h ?code"
  have it: "py_iter (dict_get d (py ''public_tests'') (JArr [])) = Inr []"
    by (simp add: assms(4) py_iter_def)
  have tm: "test_methods 0 [] = Inr []"
    by simp
  note run = run_unittest_spawn [OF assms(2,3) it tm, of h timeout]
  from assms(1) obtain tb where tb: "run ?c = Fault tb"
    unfolding rejects_empty_class_body_def by blast
  show ?thesis
  proof (cases "exits_within ?c timeout")
    case True
    have "supervise ?c ?code timeout (base_result h d (length ([]::json list))) =
      Returns \<lparr>outcome = dict_update (base_result h d (length ([]::json list)))
                 [(py ''category'', JStr (py ''execution_error'')), (py ''error'', JStr tb)],
              executed = Some ?code,
              calls = [Start, JoinFor timeout, IsAlive, Poll, Recv],
              process = Reaped\<rparr>"
      by (simp add: supervise_in_time [OF True] tb worker_def)
    then show ?thesis
      using True by (simp add: run map_of_dict_update)
  next
    case False
    from supervise_timeout_result [OF False, where code = ?code
        and r = "base_result h d (length ([]::json list))"]
    show ?thesis
      using False by (auto simp: run map_of_dict_update split: result.splits)
  qed
qed

theorem C10_no_tests_is_not_success_witness:
  "rejects_empty_class_body (interpreter strict_host) \<and>
   (\<exists>v. run_unittest strict_host no_tests_task 10 = Returns v \<and>
        field v ''category'' = Some (JStr (py ''execution_error'')) \<and>
        field v ''category'' \<noteq> Some (JStr (py ''success'')))"
proof -
  let ?g = "py ''def solve(lines): return lines[0]''"
  let ?d = "[(py ''problem_id'', JStr (py ''p4'')),
      (py ''solution_id'', JStr (py ''s4'')),
      (py ''generated_solution'', JStr ?g),
      (py ''public_tests'', JArr [])]"
  have 1: "dict_get ?d (py ''generated_solution'') (JStr []) = JStr ?g"
    by (simp add: dict_get_def)
  have 2: "strip ?g \<noteq> []"
    by (simp add: strip_empty_iff py_def is_space_def)
  have 3: "dict_get ?d (py ''public_tests'') (JArr []) = JArr []"
    by (simp add: dict_get_def)
  have w: "exits_within (interpreter strict_host (full_code ?g (test_code []))) 10"
    by (simp add: strict_host_def ends_with_full_code exits_within_def)
  have t: "\<not> traps_sigterm (interpreter strict_host (full_code ?g (test_code [])))"
    by (simp add: strict_host_def ends_with_full_code)
  from C10_no_tests_is_not_success [OF strict_host_rejects 1 2 3, of 10] w t
  have "\<exists>v. run_unittest strict_host (JObj ?d) 10 = Returns v \<and>
        field v ''category'' = Some (JStr (py ''execution_error'')) \<and>
        field v ''category'' \<noteq> Some (JStr (py ''success''))"
    by (auto split: result.splits)
  with strict_host_rejects show ?thesis
    by (simp add: no_tests_task_def)
qed

section \<open>Malformed lines\<close>










section \<open>The output file and the resume ledger\<close>

subsection \<open>Records are whole lines\<close>

lemma no_control_simps [simp]:
  "no_control []"
  "no_control (c # s) \<longleftrightarrow> 32 \<le> c \<and> no_control s"
  "no_control (s @ t) \<longleftrightarrow> no_control s \<and> no_control t"
  by (simp_all add: no_control_def)






lemma no_control_py_lits [simp]:
  "no_control (py ''null'')" "no_control (py ''true'')" "no_control (py ''false'')"
  "no_control (py '', '')" "no_control (py '': '')"
  by (simp_all add: py_def)



lemma lines_of_eq_Nil [simp]: "lines_of s = [] \<longleftrightarrow> s = []"
  by (cases s) (auto split: list.splits)






lemma ledger_loop_union: "ledger_loop loads keys xs = keys \<union> ledger_loop loads {} xs"
proof (induction xs arbitrary: keys)
  case Nil
  then show ?case by simp
next
  case (Cons x xs)
  show ?case
  proof (cases "loads x")
    case (Inl e)
    then show ?thesis using Cons.IH [of keys] by simp
  next
    case (Inr data)
    show ?thesis
    proof (cases "ledger_key data")
      case None
      with Inr show ?thesis using Cons.IH [of keys] by simp
    next
      case (Some k)
      with Inr show ?thesis
        using Cons.IH [of "insert k keys"] Cons.IH [of "{k}"] by auto
    qed
  qed
qed


subsection \<open>The key of a record is the key of its job\<close>


lemma job_key_Inl_iff: "(\<exists>e. job_key problem i = Inl e) \<longleftrightarrow> pid_key problem = None"
  by (cases problem) (auto simp: job_key_def pid_key_def py_get_def split: option.splits)







subsection \<open>Running a list of jobs\<close>


lemma job_keys_simps [simp]:
  "job_keys [] = {}"
  "job_keys (js @ js') = job_keys js \<union> job_keys js'"
  by (auto simp: job_keys_def)












subsection \<open>The example batch\<close>













section \<open>A failing call to the model\<close>

text \<open>
  Claim C8 says that a failing call to the model-serving backend ends as a record with an
  API-failure tag. The code does not do that: \<open>create_completion\<close> catches the exception
  of the call and returns the empty string, so the handler of \<open>process_one_completion\<close>,
  the only place that writes \<open>error_category\<close>, is not reached. For a problem whose
  description is text and whose tests are a dict, a job whose call fails writes a record
  with no \<open>error_category\<close> and no \<open>error_message\<close>, an empty \<open>raw_llm_output\<close> and the
  code extracted from the empty string.
\<close>

theorem C8_api_failure_is_not_tagged:
  assumes "stripped_description g d = Inr statement"
    and "chat g (user_message statement) = Inl e"
    and "tests_of d (py ''public_tests'') = Inr public_tests"
    and "tests_of d (py ''private_tests'') = Inr private_tests"
    and "job_key (JObj d) i = Inr key" and "key \<notin> keys"
  shows "\<exists>info. process_one_completion g keys (JObj d) i = Inr (Some info) \<and>
           map_of info (py ''error_category'') = None \<and>
           map_of info (py ''error_message'') = None \<and>
           map_of info (py ''raw_llm_output'') = Some (JStr []) \<and>
           map_of info (py ''generated_solution'') = Some (JStr (extract_code_block g []))"
  using assms
  by (simp add: process_one_completion_def try_completion_def create_completion_def Let_def)

theorem C8_api_failure_is_not_tagged_witness:
  "chat offline_generator (user_message []) = Inl (py ''Connection refused'') \<and>
   (\<exists>info. process_one_completion offline_generator {} demo_problem 0 = Inr (Some info) \<and>
       map_of info (py ''error_category'') = None \<and>
       map_of info (py ''raw_llm_output'') = Some (JStr []) \<and>
       map_of info (py ''generated_solution'') = Some (JStr []))"
proof -
  let ?d = "[(py ''problem_id'', JStr (py ''p1''))]"
  have 1: "stripped_description offline_generator ?d = Inr []"
    by (simp add: stripped_description_def dict_get_def offline_generator_def
        demo_generator_def)
  have 2: "chat offline_generator (user_message []) = Inl (py ''Connection refused'')"
    by (simp add: offline_generator_def demo_generator_def)
  have 3: "tests_of ?d (py ''public_tests'') = Inr (JArr [])"
    and 4: "tests_of ?d (py ''private_tests'') = Inr (JArr [])"
    by (simp_all add: tests_of_def dict_get_def py_get_def)
  have 5: "job_key (JObj ?d) 0 = Inr (JStr (py ''p1''), JInt 0)"
    by (simp add: job_key_def py_get_def dict_get_def py_key_def)
  have 6: "(JStr (py ''p1''), JInt 0) \<notin> {}"
    by simp
  have 7: "extract_code_block offline_generator [] = []"
    by (simp add: offline_generator_def demo_generator_def)
  from C8_api_failure_is_not_tagged [OF 1 2 3 4 5 6] 2 show ?thesis
    unfolding demo_problem_def 7 by blast
qed

section \<open>Concurrent appends\<close>













end
